theory Spec2Isabelle
  imports Complex_Main
begin

section \<open>JavaScript values used by the dashboard\<close>

text \<open>
  The Pro Trader Gold page computes with JavaScript numbers and strings. A number is
  modelled as \<open>NaN\<close>, a signed infinity, or an exact rational: the page parses decimal
  texts, adds, divides by ten and prints with two decimals, and the model does the same
  on exact values. The rounding of IEEE doubles is outside the model. Strings are lists
  of 8-bit characters; only ASCII white space is recognised as white space.
\<close>

datatype jsnum = NaN | Infinity bool | Fin rat

datatype js_error = TypeError

definition is_digit :: "char \<Rightarrow> bool" where
  "is_digit c = (c \<in> set ''0123456789'')"

definition is_space :: "char \<Rightarrow> bool" where
  "is_space c = (c \<in> set [CHR '' '', CHR 0x09, CHR 0x0A, CHR 0x0B, CHR 0x0C, CHR 0x0D])"

definition digit_val :: "char \<Rightarrow> nat" where
  "digit_val c = of_char c - 48"

definition digits_val :: "string \<Rightarrow> nat" where
  "digits_val ds = foldl (\<lambda>a c. 10 * a + digit_val c) 0 ds"

definition digit_char :: "nat \<Rightarrow> char" where
  "digit_char d = ''0123456789'' ! d"

fun show_nat :: "nat \<Rightarrow> string" where
  "show_nat n = (if n < 10 then [digit_char n] else show_nat (n div 10) @ [digit_char (n mod 10)])"

declare show_nat.simps [simp del]

definition scale10 :: "rat \<Rightarrow> int \<Rightarrow> rat" where
  "scale10 m e = (if 0 \<le> e then m * 10 ^ nat e else m / 10 ^ nat (- e))"

definition decimal :: "string \<Rightarrow> string \<Rightarrow> rat" where
  "decimal ip fp = of_nat (digits_val (ip @ fp)) / 10 ^ length fp"

text \<open>
  The optional exponent part after a mantissa (\<open>e\<close> or \<open>E\<close>, an optional sign, at
  least one digit); 0 when the text does not continue with one.
\<close>

definition parse_exponent :: "string \<Rightarrow> int" where
  "parse_exponent r =
     (case r of
        [] \<Rightarrow> 0
      | c # r1 \<Rightarrow>
          if c = CHR ''e'' \<or> c = CHR ''E'' then
            (case r1 of
               [] \<Rightarrow> 0
             | d # r2 \<Rightarrow>
                 if is_digit d then int (digits_val (takeWhile is_digit r1))
                 else if (d = CHR ''+'' \<or> d = CHR ''-'') \<and> takeWhile is_digit r2 \<noteq> [] then
                   (if d = CHR ''-'' then - int (digits_val (takeWhile is_digit r2))
                    else int (digits_val (takeWhile is_digit r2)))
                 else 0)
          else 0)"

definition parse_unsigned :: "string \<Rightarrow> jsnum" where
  "parse_unsigned u =
     (if take 8 u = ''Infinity'' then Infinity False
      else
        let ip = takeWhile is_digit u; r1 = dropWhile is_digit u in
        (case r1 of
           [] \<Rightarrow> if ip = [] then NaN else Fin (of_nat (digits_val ip))
         | c # r2 \<Rightarrow>
             if c = CHR ''.'' then
               (let fp = takeWhile is_digit r2; r3 = dropWhile is_digit r2 in
                if ip = [] \<and> fp = [] then NaN
                else Fin (scale10 (decimal ip fp) (parse_exponent r3)))
             else if ip = [] then NaN
             else Fin (scale10 (of_nat (digits_val ip)) (parse_exponent r1))))"

definition js_neg :: "jsnum \<Rightarrow> jsnum" where
  "js_neg x = (case x of NaN \<Rightarrow> NaN | Infinity b \<Rightarrow> Infinity (\<not> b) | Fin q \<Rightarrow> Fin (- q))"

text \<open>
  \<open>parseFloat\<close>: leading white space is skipped, then the longest prefix that is a
  decimal literal is read; \<open>NaN\<close> when there is none.
\<close>

definition parseFloat :: "string \<Rightarrow> jsnum" where
  "parseFloat s =
     (case dropWhile is_space s of
        [] \<Rightarrow> NaN
      | c # u \<Rightarrow>
          if c = CHR ''-'' then js_neg (parse_unsigned u)
          else if c = CHR ''+'' then parse_unsigned u
          else parse_unsigned (c # u))"

definition js_add :: "jsnum \<Rightarrow> jsnum \<Rightarrow> jsnum" where
  "js_add x y =
     (case (x, y) of
        (Fin a, Fin b) \<Rightarrow> Fin (a + b)
      | (Fin a, Infinity b) \<Rightarrow> Infinity b
      | (Infinity a, Fin b) \<Rightarrow> Infinity a
      | (Infinity a, Infinity b) \<Rightarrow> if a = b then Infinity a else NaN
      | _ \<Rightarrow> NaN)"

definition js_div :: "jsnum \<Rightarrow> rat \<Rightarrow> jsnum" where
  "js_div x d = (case x of Fin a \<Rightarrow> Fin (a / d) | other \<Rightarrow> other)"

text \<open>
  \<open>x.toFixed(2)\<close> on exact values: the sign, then the nearest multiple of 0.01 of the
  magnitude (the larger one on a tie). Magnitudes from \<open>10^21\<close> on, which JavaScript
  prints in exponent notation, are not covered.
\<close>

definition toFixed2 :: "jsnum \<Rightarrow> string" where
  "toFixed2 x =
     (case x of
        NaN \<Rightarrow> ''NaN''
      | Infinity b \<Rightarrow> (if b then ''-Infinity'' else ''Infinity'')
      | Fin q \<Rightarrow>
          (let n = nat \<lfloor>\<bar>q\<bar> * 100 + 1 / 2\<rfloor> in
           (if q < 0 then ''-'' else '''') @ show_nat (n div 100) @ ''.''
             @ [digit_char (n div 10 mod 10), digit_char (n mod 10)]))"

text \<open>Truthiness of a number that may be \<open>null\<close>: \<open>null\<close>, 0 and \<open>NaN\<close> are falsy.\<close>

definition falsy_num :: "jsnum option \<Rightarrow> bool" where
  "falsy_num v = (v = None \<or> v = Some NaN \<or> v = Some (Fin 0))"

text \<open>
  The first match of the regular expression \<open>/\$(\d+(?:\.\d+)?)/\<close> in a text, as its
  captured group: the first dollar sign that is followed by a digit, the digits after it,
  and a fraction when a point and at least one digit follow.
\<close>

definition price_group :: "string \<Rightarrow> string" where
  "price_group cs =
     (let ip = takeWhile is_digit cs; r = dropWhile is_digit cs in
      (case r of
         [] \<Rightarrow> ip
       | c # r' \<Rightarrow>
           if c = CHR ''.'' \<and> takeWhile is_digit r' \<noteq> [] then ip @ ''.'' @ takeWhile is_digit r'
           else ip))"

fun match_price :: "string \<Rightarrow> string option" where
  "match_price [] = None"
| "match_price (c # cs) =
     (if c = CHR ''$'' \<and> takeWhile is_digit cs \<noteq> [] then Some (price_group cs)
      else match_price cs)"

section \<open>Pip offsets and the liquidity grab level\<close>

record confluence =
  ctype :: string
  score :: int
  description :: "string option"

text \<open>
  \<open>getLiquidityGrabLevel\<close> of the page, with the confluence list of the shown setup as
  its argument. \<open>None\<close> for the list is a value that is missing or not an array. A
  description of \<open>None\<close> is a confluence without a description text: the call of
  \<open>match\<close> on it throws.
\<close>

definition getLiquidityGrabLevel :: "confluence list option \<Rightarrow> js_error + jsnum option" where
  "getLiquidityGrabLevel confluences =
     (case confluences of
        None \<Rightarrow> Inr None
      | Some cs \<Rightarrow>
          (case find (\<lambda>c. ctype c = ''LIQUIDITY_GRAB'') cs of
             None \<Rightarrow> Inr None
           | Some liquidityGrab \<Rightarrow>
               (case description liquidityGrab of
                  None \<Rightarrow> Inl TypeError
                | Some d \<Rightarrow>
                    (case match_price d of
                       None \<Rightarrow> Inr None
                     | Some m \<Rightarrow> Inr (Some (parseFloat m))))))"

text \<open>
  \<open>convertPipToPrice\<close>. The argument is \<open>None\<close> when the page passes a field that is
  absent; an absent or empty text is returned as it is.
\<close>

definition convertPipToPrice :: "confluence list option \<Rightarrow> string option \<Rightarrow> js_error + string option" where
  "convertPipToPrice confluences pipString =
     (case pipString of
        None \<Rightarrow> Inr None
      | Some p \<Rightarrow>
          if p = [] then Inr pipString
          else
            let pipValue = parseFloat (remove1 (CHR ''$'') p) in
            if pipValue = NaN then Inr pipString
            else
              (case getLiquidityGrabLevel confluences of
                 Inl e \<Rightarrow> Inl e
               | Inr basePrice \<Rightarrow>
                   if falsy_num basePrice then Inr pipString
                   else Inr (Some (''$'' @ toFixed2 (js_add (the basePrice) (js_div pipValue 10))))))"

section \<open>Payloads of the backend\<close>

text \<open>
  The records hold the fields of the JSON payloads that the modelled parts of the page
  read. An optional field is \<open>None\<close> when the payload does not carry it. Field names
  follow the payload; a prefix tells apart fields of the same name in different objects.
  A flag that the page only tests for truth is a Boolean, false when it is absent; the
  position size, which the page compares with 50 and 100 and passes on, is an integer.
\<close>

record alert =
  title :: string
  message :: string
  priority :: string
  action :: "string option"

record trade_status =
  in_trade :: bool
  position_size :: int
  ts_stop_loss :: "jsnum option"
  ts_take_profit_1 :: "jsnum option"
  ts_take_profit_2 :: "jsnum option"
  alerts :: "alert list option"

record price_note =
  price :: "string option"

record trade_plan =
  plan_status :: "string option"
  entry_price :: "string option"
  stop_loss :: "price_note option"
  take_profit_1 :: "price_note option"
  take_profit_2 :: "price_note option"

record early_entry =
  available :: bool
  ee_stop_loss :: "string option"

text \<open>
  A step of the setup; \<open>entry_timing\<close> stands for the \<open>early_entry\<close> object inside the
  step's \<open>entry_timing\<close>.
\<close>

record setup_step =
  step_status :: string
  entry_timing :: "early_entry option"

record trader_setup =
  setup_status :: string
  confluences :: "confluence list option"
  setup_steps :: "setup_step list option"
  trade_plan :: "trade_plan option"
  current_price :: "jsnum option"

record analysis =
  bullish :: "trader_setup option"
  bearish :: "trader_setup option"

record mutation_result =
  success :: bool
  error_text :: "string option"
  result_message :: "string option"
  pnl :: "string option"
  pnl_pct :: "string option"

text \<open>
  What an awaited \<open>fetch\<close> delivers: a response with its status code and parsed JSON body,
  or a thrown value (the network failed, or the body was not JSON).
\<close>

datatype thrown = ErrorObject string string | OtherValue string

datatype 'a outcome = Rejected thrown | Replied nat 'a

definition http_ok :: "nat \<Rightarrow> bool" where
  "http_ok st = (200 \<le> st \<and> st \<le> 299)"

text \<open>\<open>String(err)\<close> for a thrown value; an error object prints its name and message.\<close>

definition thrown_text :: "thrown \<Rightarrow> string" where
  "thrown_text t =
     (case t of
        ErrorObject name msg \<Rightarrow>
          (if name = [] then msg else if msg = [] then name else name @ '': '' @ msg)
      | OtherValue txt \<Rightarrow> txt)"

definition js_str :: "string option \<Rightarrow> string" where
  "js_str v = (case v of None \<Rightarrow> ''undefined'' | Some t \<Rightarrow> t)"

section \<open>State of the Pro Trader Gold page\<close>

datatype trader = Bullish | Bearish

record entry_form =
  ef_entry_price :: "jsnum option"
  ef_position_size :: "jsnum option"
  ef_stop_loss :: "jsnum option"
  ef_take_profit_1 :: "jsnum option"
  ef_take_profit_2 :: "jsnum option"

record entry_request = entry_form +
  trade_direction :: string

record exit_request =
  exit_price :: jsnum
  exit_position_size :: int
  reason :: string

record page_state =
  setupData :: "trader_setup option"
  bullishData :: "trader_setup option"
  bearishData :: "trader_setup option"
  selectedTrader :: trader
  tradeStatus :: "trade_status option"
  loading :: bool
  error :: string
  showEnterTradeModal :: bool
  entryFormData :: "entry_form option"

definition initial_page :: page_state where
  "initial_page =
     \<lparr>setupData = None, bullishData = None, bearishData = None, selectedTrader = Bullish,
      tradeStatus = None, loading = True, error = [], showEnterTradeModal = False,
      entryFormData = None\<rparr>"

subsection \<open>What the poll functions do with a result\<close>

text \<open>
  \<open>fetchSetup\<close> after its \<open>await\<close>, as a function of what the request delivered. A body
  that cannot be read as an object is a thrown error here.
\<close>

definition fetchSetup_settled :: "analysis outcome \<Rightarrow> page_state \<Rightarrow> page_state" where
  "fetchSetup_settled out s =
     (case out of
        Replied st data \<Rightarrow>
          if http_ok st then
            s\<lparr>bullishData := bullish data, bearishData := bearish data, error := [], loading := False\<rparr>
          else s\<lparr>error := ''HTTP '' @ show_nat st, loading := False\<rparr>
      | Rejected (ErrorObject name msg) \<Rightarrow> s\<lparr>error := msg, loading := False\<rparr>
      | Rejected (OtherValue txt) \<Rightarrow> s\<lparr>error := ''Network error'', loading := False\<rparr>)"

text \<open>
  The effect that depends on the selected trader and the two setups: it runs after a
  render in which one of them changed.
\<close>

definition selectSetup :: "page_state \<Rightarrow> page_state" where
  "selectSetup s =
     (if bullishData s \<noteq> None \<and> bearishData s \<noteq> None then
        s\<lparr>setupData := (if selectedTrader s = Bullish then bullishData s else bearishData s)\<rparr>
      else s)"

definition stored_setup :: "analysis outcome \<Rightarrow> bool" where
  "stored_setup out = (case out of Replied st data \<Rightarrow> http_ok st | Rejected t \<Rightarrow> False)"

definition fetchTradeStatus_settled :: "trade_status option outcome \<Rightarrow> page_state \<Rightarrow> page_state" where
  "fetchTradeStatus_settled out s =
     (case out of
        Replied st data \<Rightarrow> if http_ok st then s\<lparr>tradeStatus := data\<rparr> else s
      | Rejected t \<Rightarrow> s)"

definition openEnterTradeModal :: "entry_form \<Rightarrow> page_state \<Rightarrow> page_state" where
  "openEnterTradeModal entryData s = s\<lparr>entryFormData := Some entryData, showEnterTradeModal := True\<rparr>"

subsection \<open>What the page renders\<close>

definition inTrade :: "page_state \<Rightarrow> bool" where
  "inTrade s = (case tradeStatus s of None \<Rightarrow> False | Some ts \<Rightarrow> in_trade ts)"

datatype section_tag = DualTraderCards | TradeMonitoring | CurrentSetupPlan | TradePlan | EnterTradeModal

datatype screen = LoadingScreen | FailedScreen string | Dashboard "section_tag list"

definition plan_shown :: "trader_setup \<Rightarrow> bool" where
  "plan_shown su =
     (case trade_plan su of None \<Rightarrow> False | Some tp \<Rightarrow> plan_status tp \<noteq> Some ''Not ready yet'')"

definition plan_displayed :: "page_state \<Rightarrow> bool" where
  "plan_displayed s = (case setupData s of None \<Rightarrow> False | Some su \<Rightarrow> plan_shown su)"

text \<open>
  The sections of the dashboard that the modelled claims are about, in page order. The
  candle, reasoning and invalidation sections are left out.
\<close>

definition sections :: "page_state \<Rightarrow> section_tag list" where
  "sections s =
     (if \<not> inTrade s \<and> bullishData s \<noteq> None \<and> bearishData s \<noteq> None then [DualTraderCards] else [])
     @ (if inTrade s \<and> tradeStatus s \<noteq> None then [TradeMonitoring] else [])
     @ (if \<not> inTrade s then [CurrentSetupPlan] else [])
     @ (if plan_displayed s then [TradePlan] else [])
     @ (if showEnterTradeModal s \<and> entryFormData s \<noteq> None then [EnterTradeModal] else [])"

text \<open>
  The screen the component returns, as the conditions of its JSX select it: the loading
  screen, the failure screen with the error text and a retry button, or the dashboard.
\<close>

definition screen_of :: "page_state \<Rightarrow> screen" where
  "screen_of s =
     (if loading s then LoadingScreen
      else if error s \<noteq> [] \<or> setupData s = None then FailedScreen (error s)
      else Dashboard (sections s))"

text \<open>The alert cards of the trade monitoring section: colour classes and the alert.\<close>

definition alert_colour :: "alert \<Rightarrow> string" where
  "alert_colour a =
     (if priority a = ''HIGH'' then ''bg-red-900 border-red-500''
      else if priority a = ''MEDIUM'' then ''bg-yellow-900 border-yellow-500''
      else ''bg-blue-900 border-blue-500'')"

definition alert_cards :: "trade_status \<Rightarrow> (string \<times> alert) list" where
  "alert_cards ts =
     (case alerts ts of
        None \<Rightarrow> []
      | Some as \<Rightarrow> if 0 < length as then map (\<lambda>a. (alert_colour a, a)) as else [])"

text \<open>
  The prices of the trade plan section, each through \<open>convertPipToPrice\<close>: the entry, then
  stop loss and the two take profits when present. A throw in one of them aborts the
  render.
\<close>

definition bind_price :: "js_error + string option \<Rightarrow> (js_error + string option list) \<Rightarrow> js_error + string option list" where
  "bind_price r rest =
     (case r of Inl e \<Rightarrow> Inl e | Inr v \<Rightarrow> (case rest of Inl e \<Rightarrow> Inl e | Inr vs \<Rightarrow> Inr (v # vs)))"

definition note_price :: "confluence list option \<Rightarrow> price_note option \<Rightarrow> (js_error + string option list) \<Rightarrow> js_error + string option list" where
  "note_price cs n rest =
     (case n of None \<Rightarrow> rest | Some pn \<Rightarrow> bind_price (convertPipToPrice cs (price pn)) rest)"

definition trade_plan_prices :: "trader_setup \<Rightarrow> js_error + string option list" where
  "trade_plan_prices su =
     (case trade_plan su of
        None \<Rightarrow> Inr []
      | Some tp \<Rightarrow>
          if plan_status tp = Some ''Not ready yet'' then Inr []
          else
            bind_price (convertPipToPrice (confluences su) (entry_price tp))
              (note_price (confluences su) (stop_loss tp)
                (note_price (confluences su) (take_profit_1 tp)
                  (note_price (confluences su) (take_profit_2 tp) (Inr [])))))"

text \<open>
  One render of the page. The dashboard evaluates the prices of the trade plan of the
  shown setup; a throw there aborts the render.
\<close>

definition render :: "page_state \<Rightarrow> js_error + screen" where
  "render s =
     (case screen_of s of
        Dashboard secs \<Rightarrow>
          (case setupData s of
             None \<Rightarrow> Inr (Dashboard secs)
           | Some su \<Rightarrow>
               (case trade_plan_prices su of Inl e \<Rightarrow> Inl e | Inr prices \<Rightarrow> Inr (Dashboard secs)))
      | other \<Rightarrow> Inr other)"

definition displays :: "section_tag \<Rightarrow> js_error + screen \<Rightarrow> bool" where
  "displays t r = (case r of Inr (Dashboard ts) \<Rightarrow> t \<in> set ts | other \<Rightarrow> False)"

section \<open>The page in its environment\<close>

text \<open>
  The asynchronous functions of the page are split at their \<open>await\<close>: the first half sends
  a request, the second half runs when the request settles. The environment keeps every
  request sent so far (a request is named by its position in that list, so a smaller
  number was dispatched earlier), the requests still in flight, the dialogs shown to the
  operator, and the errors no handler caught.
\<close>

datatype request = GetAnalysis | GetTradeStatus | PostEnterTrade entry_request | PostExitTrade exit_request

text \<open>
  A trade status request sent from \<open>exitTrade\<close> is followed by \<open>fetchSetup\<close> once it has
  settled.
\<close>

datatype followup = NoFollowup | ThenFetchSetup

datatype dialog = AlertBox string | ConfirmBox string

record world =
  page :: page_state
  mounted :: bool
  interval :: "nat option"
  sent :: "request list"
  pending :: "(nat \<times> followup) list"
  dialogs :: "dialog list"
  uncaught :: "js_error list"

definition initial_world :: world where
  "initial_world =
     \<lparr>page = initial_page, mounted = False, interval = None, sent = [], pending = [],
      dialogs = [], uncaught = []\<rparr>"

definition dispatch :: "request \<Rightarrow> followup \<Rightarrow> world \<Rightarrow> world" where
  "dispatch r k w = w\<lparr>sent := sent w @ [r], pending := pending w @ [(length (sent w), k)]\<rparr>"

definition awaiting :: "world \<Rightarrow> nat \<Rightarrow> followup option" where
  "awaiting w n = (if n < length (sent w) then map_of (pending w) n else None)"

definition settle :: "nat \<Rightarrow> world \<Rightarrow> world" where
  "settle n w = w\<lparr>pending := filter (\<lambda>p. fst p \<noteq> n) (pending w)\<rparr>"

definition fetchSetup :: "world \<Rightarrow> world" where
  "fetchSetup w = dispatch GetAnalysis NoFollowup w"

definition fetchTradeStatus :: "followup \<Rightarrow> world \<Rightarrow> world" where
  "fetchTradeStatus k w = dispatch GetTradeStatus k w"

definition enterTrade :: "entry_request \<Rightarrow> world \<Rightarrow> world" where
  "enterTrade entryData w = dispatch (PostEnterTrade entryData) NoFollowup w"

definition enterTrade_settled :: "mutation_result outcome \<Rightarrow> world \<Rightarrow> world" where
  "enterTrade_settled out w =
     (case out of
        Replied st result \<Rightarrow>
          if success result then
            fetchTradeStatus NoFollowup (w\<lparr>page := (page w)\<lparr>showEnterTradeModal := False\<rparr>\<rparr>)
          else w\<lparr>dialogs := dialogs w @ [AlertBox (''Failed to enter trade: '' @ js_str (error_text result))]\<rparr>
      | Rejected t \<Rightarrow> w\<lparr>dialogs := dialogs w @ [AlertBox (''Error entering trade: '' @ thrown_text t)]\<rparr>)"

definition show_int :: "int \<Rightarrow> string" where
  "show_int i = (if i < 0 then ''-'' @ show_nat (nat (- i)) else show_nat (nat i))"

text \<open>
  \<open>exitTrade\<close> up to its request. The exit price is the current price of the shown setup;
  when the setup carries none, formatting it for the confirmation throws. The Boolean is
  the operator's answer to the confirmation.
\<close>

definition exitTrade :: "jsnum option \<Rightarrow> int \<Rightarrow> string \<Rightarrow> bool \<Rightarrow> world \<Rightarrow> world" where
  "exitTrade exitPrice positionSize why answer w =
     (case exitPrice of
        None \<Rightarrow> w\<lparr>uncaught := uncaught w @ [TypeError]\<rparr>
      | Some p \<Rightarrow>
          let w' = w\<lparr>dialogs := dialogs w @
                     [ConfirmBox (''Exit '' @ show_int positionSize @ ''% of position at $'' @ toFixed2 p @ ''?'')]\<rparr>
          in if answer then
               dispatch (PostExitTrade \<lparr>exit_price = p, exit_position_size = positionSize, reason = why\<rparr>)
                 NoFollowup w'
             else w')"

definition exitTrade_settled :: "mutation_result outcome \<Rightarrow> world \<Rightarrow> world" where
  "exitTrade_settled out w =
     (case out of
        Replied st result \<Rightarrow>
          if success result then
            fetchTradeStatus ThenFetchSetup
              (w\<lparr>dialogs := dialogs w @
                  [AlertBox (js_str (result_message result) @ [CHR 0x0A] @ ''P&L: $'' @ js_str (pnl result)
                     @ '' ('' @ js_str (pnl_pct result) @ ''%)'')]\<rparr>)
          else w
      | Rejected t \<Rightarrow> w\<lparr>dialogs := dialogs w @ [AlertBox (''Error exiting trade: '' @ thrown_text t)]\<rparr>)"

subsection \<open>Buttons and their handlers\<close>

datatype button =
  RetryButton | BullishCard | BearishCard | AddMoreButton | ExitHalfButton | CloseTradeButton
  | TookTradeButton nat | CancelButton | ConfirmEntryButton

definition took_trade_offered :: "setup_step \<Rightarrow> bool" where
  "took_trade_offered st =
     (step_status st = ''in_progress'' \<and> (case entry_timing st of None \<Rightarrow> False | Some ee \<Rightarrow> available ee))"

definition monitoring_buttons :: "trade_status \<Rightarrow> button list" where
  "monitoring_buttons ts =
     (if position_size ts = 50 then [AddMoreButton] else [])
     @ (if position_size ts = 100 then [ExitHalfButton] else [])
     @ [CloseTradeButton]"

definition step_buttons :: "trader_setup \<Rightarrow> button list" where
  "step_buttons su =
     (case setup_steps su of
        None \<Rightarrow> []
      | Some steps \<Rightarrow> [TookTradeButton i. i \<leftarrow> [0..<length steps], took_trade_offered (steps ! i)])"

definition shown_monitoring_buttons :: "page_state \<Rightarrow> button list" where
  "shown_monitoring_buttons s =
     (case tradeStatus s of None \<Rightarrow> [] | Some ts \<Rightarrow> monitoring_buttons ts)"

definition shown_step_buttons :: "page_state \<Rightarrow> button list" where
  "shown_step_buttons s = (case setupData s of None \<Rightarrow> [] | Some su \<Rightarrow> step_buttons su)"

definition buttons :: "page_state \<Rightarrow> button list" where
  "buttons s =
     (case render s of
        Inl e \<Rightarrow> []
      | Inr LoadingScreen \<Rightarrow> []
      | Inr (FailedScreen e) \<Rightarrow> [RetryButton]
      | Inr (Dashboard secs) \<Rightarrow>
          (if DualTraderCards \<in> set secs then [BullishCard, BearishCard] else [])
          @ (if TradeMonitoring \<in> set secs then shown_monitoring_buttons s else [])
          @ (if CurrentSetupPlan \<in> set secs then shown_step_buttons s else [])
          @ (if EnterTradeModal \<in> set secs then [CancelButton, ConfirmEntryButton] else []))"

definition addMore_form :: "trader_setup \<Rightarrow> trade_status \<Rightarrow> entry_form" where
  "addMore_form su ts =
     \<lparr>ef_entry_price = current_price su, ef_position_size = Some (Fin 50),
      ef_stop_loss = ts_stop_loss ts, ef_take_profit_1 = ts_take_profit_1 ts,
      ef_take_profit_2 = ts_take_profit_2 ts\<rparr>"

definition js_plus :: "jsnum option \<Rightarrow> rat \<Rightarrow> jsnum" where
  "js_plus v d = (case v of None \<Rightarrow> NaN | Some x \<Rightarrow> js_add x (Fin d))"

text \<open>
  A take profit of the form opened from a step: the price text of the trade plan when
  there is a non-empty one, else the current price plus a fixed distance.
\<close>

definition plan_target :: "price_note option \<Rightarrow> jsnum option \<Rightarrow> rat \<Rightarrow> jsnum" where
  "plan_target n cp d =
     (case n of
        None \<Rightarrow> js_plus cp d
      | Some pn \<Rightarrow>
          (case price pn of
             None \<Rightarrow> js_plus cp d
           | Some t \<Rightarrow> if t = [] then js_plus cp d else parseFloat (remove1 (CHR ''$'') t)))"

definition tookTrade_form :: "trader_setup \<Rightarrow> early_entry \<Rightarrow> js_error + entry_form" where
  "tookTrade_form su ee =
     (case ee_stop_loss ee of
        None \<Rightarrow> Inl TypeError
      | Some t \<Rightarrow>
          Inr \<lparr>ef_entry_price = current_price su, ef_position_size = Some (Fin 50),
               ef_stop_loss = Some (parseFloat (remove1 (CHR ''$'') t)),
               ef_take_profit_1 =
                 Some (plan_target (case trade_plan su of None \<Rightarrow> None | Some tp \<Rightarrow> take_profit_1 tp)
                         (current_price su) 10),
               ef_take_profit_2 =
                 Some (plan_target (case trade_plan su of None \<Rightarrow> None | Some tp \<Rightarrow> take_profit_2 tp)
                         (current_price su) 20)\<rparr>)"

definition confirm_entry :: "entry_form \<Rightarrow> entry_request" where
  "confirm_entry f =
     \<lparr>ef_entry_price = ef_entry_price f, ef_position_size = ef_position_size f,
      ef_stop_loss = ef_stop_loss f, ef_take_profit_1 = ef_take_profit_1 f,
      ef_take_profit_2 = ef_take_profit_2 f, trade_direction = ''LONG''\<rparr>"

text \<open>
  The click handlers, on the values of the render the button belongs to. The effect on
  the selected trader has nothing to add after a card click: the handler has already
  stored the setup the effect would select.
\<close>

definition click :: "button \<Rightarrow> bool \<Rightarrow> world \<Rightarrow> world" where
  "click b answer w =
     (let s = page w in
      case b of
        RetryButton \<Rightarrow> fetchSetup w
      | BullishCard \<Rightarrow> w\<lparr>page := s\<lparr>selectedTrader := Bullish, setupData := bullishData s\<rparr>\<rparr>
      | BearishCard \<Rightarrow> w\<lparr>page := s\<lparr>selectedTrader := Bearish, setupData := bearishData s\<rparr>\<rparr>
      | AddMoreButton \<Rightarrow>
          (case setupData s of
             None \<Rightarrow> w
           | Some su \<Rightarrow>
               (case tradeStatus s of
                  None \<Rightarrow> w
                | Some ts \<Rightarrow> w\<lparr>page := openEnterTradeModal (addMore_form su ts) s\<rparr>))
      | ExitHalfButton \<Rightarrow>
          (case setupData s of
             None \<Rightarrow> w
           | Some su \<Rightarrow> exitTrade (current_price su) 50 ''Partial profit taking'' answer w)
      | CloseTradeButton \<Rightarrow>
          (case setupData s of
             None \<Rightarrow> w
           | Some su \<Rightarrow>
               (case tradeStatus s of
                  None \<Rightarrow> w
                | Some ts \<Rightarrow> exitTrade (current_price su) (position_size ts) ''Manual exit'' answer w))
      | TookTradeButton i \<Rightarrow>
          (case setupData s of
             None \<Rightarrow> w
           | Some su \<Rightarrow>
               (case setup_steps su of
                  None \<Rightarrow> w
                | Some steps \<Rightarrow>
                    if i < length steps then
                      (case entry_timing (steps ! i) of
                         None \<Rightarrow> w
                       | Some ee \<Rightarrow>
                           (case tookTrade_form su ee of
                              Inl e \<Rightarrow> w\<lparr>uncaught := uncaught w @ [e]\<rparr>
                            | Inr f \<Rightarrow> w\<lparr>page := openEnterTradeModal f s\<rparr>))
                    else w))
      | CancelButton \<Rightarrow> w\<lparr>page := s\<lparr>showEnterTradeModal := False\<rparr>\<rparr>
      | ConfirmEntryButton \<Rightarrow>
          (case entryFormData s of None \<Rightarrow> w | Some f \<Rightarrow> enterTrade (confirm_entry f) w))"

subsection \<open>Events\<close>

datatype form_field = EntryPriceField | StopLossField | TakeProfit1Field

datatype event =
  Mount | Unmount | Tick
  | AnalysisSettles nat "analysis outcome"
  | StatusSettles nat "trade_status option outcome"
  | EnterSettles nat "mutation_result outcome"
  | ExitSettles nat "mutation_result outcome"
  | Click button bool
  | ChangeField form_field string
  | ChangePositionSize bool

definition change_field :: "form_field \<Rightarrow> string \<Rightarrow> entry_form \<Rightarrow> entry_form" where
  "change_field fld txt f =
     (case fld of
        EntryPriceField \<Rightarrow> f\<lparr>ef_entry_price := Some (parseFloat txt)\<rparr>
      | StopLossField \<Rightarrow> f\<lparr>ef_stop_loss := Some (parseFloat txt)\<rparr>
      | TakeProfit1Field \<Rightarrow> f\<lparr>ef_take_profit_1 := Some (parseFloat txt)\<rparr>)"

definition edit_form :: "(entry_form \<Rightarrow> entry_form) \<Rightarrow> world \<Rightarrow> world" where
  "edit_form g w =
     (if mounted w \<and> displays EnterTradeModal (render (page w)) then
        (case entryFormData (page w) of
           None \<Rightarrow> w
         | Some f \<Rightarrow> w\<lparr>page := (page w)\<lparr>entryFormData := Some (g f)\<rparr>\<rparr>)
      else w)"

text \<open>
  One event of the page. Mounting starts both polls and the 60 second timer; a tick of
  the timer starts both polls again, whether or not earlier polls are still in flight;
  unmounting clears the timer; a settle event delivers the outcome of a request in flight
  to the function that sent it; a click reaches its handler when the button is on the
  screen. An event that cannot happen in the given state leaves it as it is.
\<close>

fun step :: "world \<Rightarrow> event \<Rightarrow> world" where
  "step w Mount =
     (if mounted w then w
      else fetchTradeStatus NoFollowup (fetchSetup (w\<lparr>mounted := True, interval := Some 60000\<rparr>)))"
| "step w Unmount = w\<lparr>mounted := False, interval := None\<rparr>"
| "step w Tick = (if interval w = None then w else fetchTradeStatus NoFollowup (fetchSetup w))"
| "step w (AnalysisSettles n out) =
     (case awaiting w n of
        None \<Rightarrow> w
      | Some k \<Rightarrow>
          (case sent w ! n of
             GetAnalysis \<Rightarrow>
               (let s' = fetchSetup_settled out (page w) in
                (settle n w)\<lparr>page := (if stored_setup out then selectSetup s' else s')\<rparr>)
           | other \<Rightarrow> w))"
| "step w (StatusSettles n out) =
     (case awaiting w n of
        None \<Rightarrow> w
      | Some k \<Rightarrow>
          (case sent w ! n of
             GetTradeStatus \<Rightarrow>
               (let w' = (settle n w)\<lparr>page := fetchTradeStatus_settled out (page w)\<rparr> in
                if k = ThenFetchSetup then fetchSetup w' else w')
           | other \<Rightarrow> w))"
| "step w (EnterSettles n out) =
     (case awaiting w n of
        None \<Rightarrow> w
      | Some k \<Rightarrow>
          (case sent w ! n of
             PostEnterTrade r \<Rightarrow> enterTrade_settled out (settle n w)
           | other \<Rightarrow> w))"
| "step w (ExitSettles n out) =
     (case awaiting w n of
        None \<Rightarrow> w
      | Some k \<Rightarrow>
          (case sent w ! n of
             PostExitTrade r \<Rightarrow> exitTrade_settled out (settle n w)
           | other \<Rightarrow> w))"
| "step w (Click b answer) =
     (if mounted w \<and> b \<in> set (buttons (page w)) then click b answer w else w)"
| "step w (ChangeField fld txt) = edit_form (change_field fld txt) w"
| "step w (ChangePositionSize full) =
     edit_form (\<lambda>f. f\<lparr>ef_position_size := Some (Fin (if full then 100 else 50))\<rparr>) w"

definition run :: "event list \<Rightarrow> world" where
  "run es = foldl step initial_world es"

text \<open>
  The order the specification asks of the alert display: every HIGH alert before every
  MEDIUM alert, every MEDIUM alert before every LOW alert.
\<close>

definition priority_rank :: "string \<Rightarrow> nat" where
  "priority_rank p = (if p = ''HIGH'' then 0 else if p = ''MEDIUM'' then 1 else 2)"

definition spec_priority_order :: "alert list \<Rightarrow> bool" where
  "spec_priority_order as = sorted (map (\<lambda>a. priority_rank (priority a)) as)"

section \<open>Example payloads and sessions\<close>

definition grab_at_4000 :: confluence where
  "grab_at_4000 =
     \<lparr>ctype = ''LIQUIDITY_GRAB'', score = 3,
      description = Some ''Liquidity Grab at H4 support $4000.00!''\<rparr>"

definition fvg_only :: confluence where
  "fvg_only = \<lparr>ctype = ''FVG'', score = 2, description = Some ''Fair value gap at $3995.50''\<rparr>"

definition grab_without_description :: confluence where
  "grab_without_description = \<lparr>ctype = ''LIQUIDITY_GRAB'', score = 3, description = None\<rparr>"

definition watch_step :: setup_step where
  "watch_step =
     \<lparr>step_status = ''in_progress'',
      entry_timing = Some \<lparr>available = True, ee_stop_loss = Some ''$3995.00''\<rparr>\<rparr>"

definition step_without_stop_loss :: setup_step where
  "step_without_stop_loss =
     \<lparr>step_status = ''in_progress'', entry_timing = Some \<lparr>available = True, ee_stop_loss = None\<rparr>\<rparr>"

definition demo_setup :: "string \<Rightarrow> trader_setup" where
  "demo_setup tag =
     \<lparr>setup_status = tag, confluences = Some [fvg_only, grab_at_4000], setup_steps = Some [watch_step],
      trade_plan = None, current_price = Some (Fin 4000)\<rparr>"

definition demo_analysis :: "string \<Rightarrow> analysis" where
  "demo_analysis tag =
     \<lparr>bullish = Some (demo_setup (tag @ '' bullish'')), bearish = Some (demo_setup (tag @ '' bearish''))\<rparr>"

definition demo_status :: "int \<Rightarrow> trade_status" where
  "demo_status n =
     \<lparr>in_trade = True, position_size = n, ts_stop_loss = Some (Fin 3990),
      ts_take_profit_1 = Some (Fin 4010), ts_take_profit_2 = Some (Fin 4020), alerts = None\<rparr>"

definition broken_setup :: trader_setup where
  "broken_setup =
     \<lparr>setup_status = ''READY'', confluences = Some [grab_without_description],
      setup_steps = Some [step_without_stop_loss],
      trade_plan = Some \<lparr>plan_status = None, entry_price = Some ''$2.00'', stop_loss = None,
                         take_profit_1 = None, take_profit_2 = None\<rparr>,
      current_price = Some (Fin 4000)\<rparr>"

definition demo_alert :: "string \<Rightarrow> string \<Rightarrow> alert" where
  "demo_alert p t = \<lparr>title = t, message = [], priority = p, action = None\<rparr>"

definition demo_alerts :: "alert list" where
  "demo_alerts =
     [demo_alert ''LOW'' ''A'', demo_alert ''HIGH'' ''B'', demo_alert ''MEDIUM'' ''C'', demo_alert ''HIGH'' ''D'']"

definition rejection :: mutation_result where
  "rejection =
     \<lparr>success = False, error_text = Some ''No open position'', result_message = Some ''No open position'',
      pnl = None, pnl_pct = None\<rparr>"

text \<open>
  Two setup polls overlap: the poll of the first tick (request 2) answers before the poll
  sent on mount (request 0).
\<close>

definition overlapping_polls :: "event list" where
  "overlapping_polls =
     [Mount, Tick,
      AnalysisSettles 2 (Replied 200 (demo_analysis ''second'')),
      AnalysisSettles 0 (Replied 200 (demo_analysis ''first''))]"


text \<open>Both polls sent on mount are answered; the operator holds half a position.\<close>

definition holding_half :: "event list" where
  "holding_half =
     [Mount, AnalysisSettles 0 (Replied 200 (demo_analysis ''first'')),
      StatusSettles 1 (Replied 200 (Some (demo_status 50)))]"

text \<open>
  The operator holds half a position and opens the entry dialog with the add button; the
  next poll reports the full position while the dialog is still open.
\<close>

definition add_more_then_full :: "event list" where
  "add_more_then_full =
     holding_half @
     [Click AddMoreButton False, Tick, StatusSettles 3 (Replied 200 (Some (demo_status 100)))]"

text \<open>The operator selects the bearish trader, takes the early entry of its step and confirms.\<close>

definition bearish_entry :: "event list" where
  "bearish_entry =
     [Mount, AnalysisSettles 0 (Replied 200 (demo_analysis ''first'')),
      StatusSettles 1 (Replied 200 None),
      Click BearishCard False, Click (TookTradeButton 0) False, Click ConfirmEntryButton False]"

text \<open>
  The operator holds half a position; the setup poll of the next tick (request 2) is
  answered with status 500.
\<close>

definition failed_poll_in_trade :: "event list" where
  "failed_poll_in_trade =
     holding_half @ [Tick, AnalysisSettles 2 (Replied 500 (demo_analysis ''second''))]"

text \<open>The operator holds the full position and closes it; the backend refuses.\<close>

definition refused_exit :: "event list" where
  "refused_exit =
     [Mount, AnalysisSettles 0 (Replied 200 (demo_analysis ''first'')),
      StatusSettles 1 (Replied 200 (Some (demo_status 100))),
      Click CloseTradeButton True]"

section \<open>Evaluating the JavaScript functions\<close>

lemma show_nat_small: "n < 10 \<Longrightarrow> show_nat n = [digit_char n]"
  by (simp add: show_nat.simps)

lemma show_nat_big: "10 \<le> n \<Longrightarrow> show_nat n = show_nat (n div 10) @ [digit_char (n mod 10)]"
  by (subst show_nat.simps) simp

lemma floor_rat_numeral: "\<lfloor>numeral a / numeral b :: rat\<rfloor> = numeral a div numeral b"
  by (metis floor_divide_of_int_eq of_int_numeral)

lemma floor_rat_one: "\<lfloor>1 / numeral b :: rat\<rfloor> = 1 div numeral b"
  by (metis floor_divide_of_int_eq of_int_1 of_int_numeral)

lemmas js_eval =
  toFixed2_def show_nat_small show_nat_big digit_char_def floor_rat_numeral floor_rat_one
  parseFloat_def parse_unsigned_def is_digit_def is_space_def decimal_def digits_val_def
  digit_val_def scale10_def parse_exponent_def js_add_def js_div_def js_neg_def falsy_num_def
  price_group_def

lemma parse_unsigned_digit:
  assumes "is_digit c"
  shows "\<exists>q. parse_unsigned (c # cs) = Fin q"
proof -
  from assms have c: "c \<noteq> CHR ''I''" by (auto simp: is_digit_def)
  have ip: "takeWhile is_digit (c # cs) \<noteq> []" using assms by simp
  show ?thesis
    using c ip by (auto simp: parse_unsigned_def Let_def split: list.splits)
qed

lemma parseFloat_digit:
  assumes "is_digit c"
  shows "\<exists>q. parseFloat (c # cs) = Fin q"
proof -
  from assms have "\<not> is_space c" "c \<noteq> CHR ''-''" "c \<noteq> CHR ''+''"
    by (auto simp: is_digit_def is_space_def)
  then show ?thesis
    using parse_unsigned_digit [OF assms, of cs] by (simp add: parseFloat_def)
qed

lemma price_group_digit:
  assumes "takeWhile is_digit cs \<noteq> []"
  shows "\<exists>c r. price_group cs = c # r \<and> is_digit c"
proof -
  from assms obtain c r where cs: "cs = c # r" and d: "is_digit c"
    by (cases cs) (auto split: if_splits)
  then show ?thesis
    by (auto simp: price_group_def Let_def split: list.splits)
qed

lemma match_price_digit: "match_price d = Some m \<Longrightarrow> \<exists>c r. m = c # r \<and> is_digit c"
proof (induction d)
  case Nil
  then show ?case by simp
next
  case (Cons x xs)
  then show ?case
    using price_group_digit [of xs] by (auto split: if_splits)
qed

lemma getLiquidityGrabLevel_Fin:
  assumes "getLiquidityGrabLevel confs = Inr (Some a)"
  shows "\<exists>q. a = Fin q"
  using assms match_price_digit parseFloat_digit
  by (fastforce simp: getLiquidityGrabLevel_def split: option.splits)

lemma parse_zero: "parseFloat (remove1 (CHR ''$'') ''$0.00'') = Fin 0"
  by (simp add: js_eval)

lemma toFixed2_zero: "toFixed2 (Fin 0) = ''0.00''"
  by (simp add: js_eval)

lemma grab_at_4000_level: "getLiquidityGrabLevel (Some [fvg_only, grab_at_4000]) = Inr (Some (Fin 4000))"
  by (simp add: getLiquidityGrabLevel_def grab_at_4000_def fvg_only_def js_eval)

lemma fvg_only_level: "getLiquidityGrabLevel (Some [fvg_only]) = Inr None"
  by (simp add: getLiquidityGrabLevel_def fvg_only_def)

section \<open>Pip conversion\<close>

text \<open>
  C6, as the code has it. A text that is empty or does not start with a number once its
  first dollar sign is removed is returned unchanged, whatever the confluences are. Any
  text is returned unchanged when no liquidity grab level is found (or the level is 0).
  A text that does start with a number, which includes a text that is already an
  absolute price, is read as a pip offset as soon as a level is found: the result is the
  level plus a tenth of the number, with two decimals.
\<close>

theorem convertPipToPrice_cases:
  "(p = [] \<or> parseFloat (remove1 (CHR ''$'') p) = NaN \<longrightarrow>
      convertPipToPrice confs (Some p) = Inr (Some p))
   \<and> (getLiquidityGrabLevel confs = Inr b \<and> falsy_num b \<longrightarrow>
      convertPipToPrice confs (Some p) = Inr (Some p))
   \<and> (p \<noteq> [] \<and> parseFloat (remove1 (CHR ''$'') p) \<noteq> NaN
        \<and> getLiquidityGrabLevel confs = Inr (Some a) \<and> \<not> falsy_num (Some a) \<longrightarrow>
      convertPipToPrice confs (Some p) =
        Inr (Some (''$'' @ toFixed2 (js_add a (js_div (parseFloat (remove1 (CHR ''$'') p)) 10)))))"
  by (auto simp: convertPipToPrice_def Let_def)

theorem convertPipToPrice_cases_witness:
  "parseFloat (remove1 (CHR ''$'') ''Market order'') = NaN
   \<and> convertPipToPrice (Some [fvg_only, grab_at_4000]) (Some ''Market order'') = Inr (Some ''Market order'')
   \<and> getLiquidityGrabLevel (Some [fvg_only]) = Inr None
   \<and> convertPipToPrice (Some [fvg_only]) (Some ''$4000.00'') = Inr (Some ''$4000.00'')
   \<and> getLiquidityGrabLevel (Some [fvg_only, grab_at_4000]) = Inr (Some (Fin 4000))
   \<and> convertPipToPrice (Some [fvg_only, grab_at_4000]) (Some ''$-5.00'') = Inr (Some ''$3999.50'')"
proof -
  have n: "parseFloat (remove1 (CHR ''$'') ''Market order'') = NaN"
    by (simp add: js_eval)
  have m: "parseFloat (remove1 (CHR ''$'') ''$-5.00'') = Fin (- 5)"
    by (simp add: js_eval)
  have f: "toFixed2 (Fin (7999 / 2)) = ''3999.50''"
    by (simp add: js_eval)
  show ?thesis
    using convertPipToPrice_cases [of "''Market order''" "Some [fvg_only, grab_at_4000]" None "Fin 0"]
      convertPipToPrice_cases [of "''$4000.00''" "Some [fvg_only]" None "Fin 0"]
      convertPipToPrice_cases [of "''$-5.00''" "Some [fvg_only, grab_at_4000]" None "Fin 4000"]
      n m f grab_at_4000_level fvg_only_level
    by (simp add: falsy_num_def js_add_def js_div_def)
qed

text \<open>
  C6 as the specification words it fails: with a liquidity grab at 4000 among the
  confluences, the absolute price \<open>$4000.00\<close> does not pass through; it is taken for an
  offset of 4000 pips and shown as \<open>$4400.00\<close>.
\<close>

theorem absolute_price_is_converted:
  "convertPipToPrice (Some [fvg_only, grab_at_4000]) (Some ''$4000.00'') = Inr (Some ''$4400.00'')
   \<and> convertPipToPrice (Some [fvg_only, grab_at_4000]) (Some ''$4000.00'') \<noteq> Inr (Some ''$4000.00'')"
proof -
  have "convertPipToPrice (Some [fvg_only, grab_at_4000]) (Some ''$4000.00'') = Inr (Some ''$4400.00'')"
    using grab_at_4000_level by (simp add: convertPipToPrice_def js_eval)
  then show ?thesis by simp
qed

text \<open>
  The round trip where the search for the level returns. With a liquidity grab level
  \<open>a\<close> found in the confluences, the offset \<open>$0.00\<close> converts to \<open>a\<close> itself with two
  decimals; when the search returns no level, every text is returned as it came.
\<close>

lemma pip_round_trip:
  "(getLiquidityGrabLevel confs = Inr (Some a) \<longrightarrow>
      convertPipToPrice confs (Some ''$0.00'') = Inr (Some (''$'' @ toFixed2 a)))
   \<and> (getLiquidityGrabLevel confs = Inr None \<longrightarrow>
      convertPipToPrice confs (Some p) = Inr (Some p))"
proof (intro conjI impI)
  assume g: "getLiquidityGrabLevel confs = Inr (Some a)"
  then obtain q where a: "a = Fin q" using getLiquidityGrabLevel_Fin by blast
  show "convertPipToPrice confs (Some ''$0.00'') = Inr (Some (''$'' @ toFixed2 a))"
  proof (cases "q = 0")
    case True
    with g a show ?thesis
      using parse_zero toFixed2_zero by (simp add: convertPipToPrice_def falsy_num_def)
  next
    case False
    with g a show ?thesis
      using parse_zero by (simp add: convertPipToPrice_def falsy_num_def js_add_def js_div_def)
  qed
next
  assume "getLiquidityGrabLevel confs = Inr None"
  then show "convertPipToPrice confs (Some p) = Inr (Some p)"
    by (simp add: convertPipToPrice_def falsy_num_def Let_def)
qed

lemma pip_round_trip_example:
  "getLiquidityGrabLevel (Some [fvg_only, grab_at_4000]) = Inr (Some (Fin 4000))
   \<and> convertPipToPrice (Some [fvg_only, grab_at_4000]) (Some ''$0.00'') = Inr (Some ''$4000.00'')
   \<and> getLiquidityGrabLevel (Some [fvg_only]) = Inr None
   \<and> convertPipToPrice (Some [fvg_only]) (Some ''$2.00'') = Inr (Some ''$2.00'')"
  using pip_round_trip [of "Some [fvg_only, grab_at_4000]" "Fin 4000" "''$2.00''"]
    pip_round_trip [of "Some [fvg_only]" "Fin 4000" "''$2.00''"]
    grab_at_4000_level fvg_only_level
  by (simp add: js_eval)

text \<open>
  C7 at a confluence list from which no level can be taken: its liquidity grab carries no
  description. The search for the level throws instead of returning no level, and the
  conversion of \<open>$2.00\<close> throws with it; the text is not returned as it came.
\<close>

theorem anchorless_conversion_throws:
  "find (\<lambda>c. ctype c = ''LIQUIDITY_GRAB'') [fvg_only, grab_without_description]
     = Some grab_without_description
   \<and> description grab_without_description = None
   \<and> getLiquidityGrabLevel (Some [fvg_only, grab_without_description]) = Inl TypeError
   \<and> convertPipToPrice (Some [fvg_only, grab_without_description]) (Some ''$2.00'') = Inl TypeError
   \<and> convertPipToPrice (Some [fvg_only, grab_without_description]) (Some ''$2.00'')
       \<noteq> Inr (Some ''$2.00'')"
proof -
  have f: "find (\<lambda>c. ctype c = ''LIQUIDITY_GRAB'') [fvg_only, grab_without_description]
     = Some grab_without_description"
    by (simp add: fvg_only_def grab_without_description_def)
  have d: "description grab_without_description = None"
    by (simp add: grab_without_description_def)
  have g: "getLiquidityGrabLevel (Some [fvg_only, grab_without_description]) = Inl TypeError"
    using f d by (simp add: getLiquidityGrabLevel_def)
  have n: "parseFloat (remove1 (CHR ''$'') ''$2.00'') = Fin 2"
    by (simp add: js_eval)
  have c: "convertPipToPrice (Some [fvg_only, grab_without_description]) (Some ''$2.00'') = Inl TypeError"
    using g n by (simp add: convertPipToPrice_def)
  from f d g c show ?thesis by simp
qed

section \<open>Absent fields\<close>

text \<open>
  C8 at a payload the page can receive: a liquidity grab confluence without a
  description makes \<open>getLiquidityGrabLevel\<close> throw, the throw aborts the render of a
  setup with a trade plan, and an early entry without a stop loss text makes the click
  handler of its button throw.
\<close>

theorem absent_fields_throw:
  "getLiquidityGrabLevel (confluences broken_setup) = Inl TypeError
   \<and> render (initial_page\<lparr>loading := False, setupData := Some broken_setup\<rparr>) = Inl TypeError
   \<and> tookTrade_form broken_setup \<lparr>available = True, ee_stop_loss = None\<rparr> = Inl TypeError"
proof -
  have g: "getLiquidityGrabLevel (confluences broken_setup) = Inl TypeError"
    by (simp add: broken_setup_def grab_without_description_def getLiquidityGrabLevel_def)
  have n: "parseFloat (remove1 (CHR ''$'') ''$2.00'') = Fin 2"
    by (simp add: js_eval)
  have c: "convertPipToPrice (confluences broken_setup) (Some ''$2.00'') = Inl TypeError"
    using g n by (simp add: convertPipToPrice_def)
  have p: "trade_plan_prices broken_setup = Inl TypeError"
    using c by (simp add: trade_plan_prices_def bind_price_def broken_setup_def)
  have r: "render (initial_page\<lparr>loading := False, setupData := Some broken_setup\<rparr>) = Inl TypeError"
    using p by (simp add: render_def screen_of_def initial_page_def)
  have t: "tookTrade_form broken_setup \<lparr>available = True, ee_stop_loss = None\<rparr> = Inl TypeError"
    by (simp add: tookTrade_form_def)
  from g r t show ?thesis by simp
qed

section \<open>Alerts\<close>

text \<open>
  C2, as the code has it. The alert cards are the received alerts in the order of their
  arrival, none dropped and none moved; the priority of an alert only chooses the colour
  of its card.
\<close>

theorem alerts_in_arrival_order:
  "map snd (alert_cards ts) = (case alerts ts of None \<Rightarrow> [] | Some as \<Rightarrow> as)
   \<and> map fst (alert_cards ts) = map alert_colour (case alerts ts of None \<Rightarrow> [] | Some as \<Rightarrow> as)"
  by (auto simp: alert_cards_def comp_def split: option.splits)

theorem alerts_in_arrival_order_witness:
  "map snd (alert_cards ((demo_status 100)\<lparr>alerts := Some demo_alerts\<rparr>)) = demo_alerts"
  using alerts_in_arrival_order [of "(demo_status 100)\<lparr>alerts := Some demo_alerts\<rparr>"]
  by simp

text \<open>
  C2 as the specification words it fails: the alerts LOW A, HIGH B, MEDIUM C, HIGH D are
  shown as A, B, C, D, with the LOW alert first.
\<close>

theorem alerts_not_sorted:
  "map (title \<circ> snd) (alert_cards ((demo_status 100)\<lparr>alerts := Some demo_alerts\<rparr>)) = [''A'', ''B'', ''C'', ''D'']
   \<and> \<not> spec_priority_order (map snd (alert_cards ((demo_status 100)\<lparr>alerts := Some demo_alerts\<rparr>)))"
  by (simp add: alert_cards_def demo_alerts_def demo_alert_def spec_priority_order_def
      priority_rank_def comp_def)

section \<open>Evaluating sessions\<close>

lemmas world_defs =
  dispatch_def awaiting_def settle_def fetchSetup_def fetchTradeStatus_def enterTrade_def
  enterTrade_settled_def exitTrade_def exitTrade_settled_def click_def edit_form_def

lemmas page_defs =
  fetchSetup_settled_def selectSetup_def stored_setup_def fetchTradeStatus_settled_def
  openEnterTradeModal_def inTrade_def sections_def screen_of_def render_def displays_def
  buttons_def shown_monitoring_buttons_def shown_step_buttons_def monitoring_buttons_def
  step_buttons_def plan_displayed_def took_trade_offered_def plan_shown_def
  trade_plan_prices_def http_ok_def

lemmas demo_defs =
  run_def initial_world_def initial_page_def demo_analysis_def demo_setup_def demo_status_def
  watch_step_def

section \<open>Polling\<close>

text \<open>
  C1, as the code has it. The page keeps no dispatch number and checks none: whenever a
  setup request in flight is answered with success, its payload is stored, and whenever
  a trade status request in flight is answered with success, its payload is stored,
  whatever the position of the request among the requests sent. The stored value is the
  one of the answer that arrived last.
\<close>

theorem arrival_order_wins:
  "(awaiting w n = Some k \<and> sent w ! n = GetAnalysis \<and> http_ok st \<longrightarrow>
      bullishData (page (step w (AnalysisSettles n (Replied st d)))) = bullish d
      \<and> bearishData (page (step w (AnalysisSettles n (Replied st d)))) = bearish d)
   \<and> (awaiting w n = Some k \<and> sent w ! n = GetTradeStatus \<and> http_ok st \<longrightarrow>
      tradeStatus (page (step w (StatusSettles n (Replied st t)))) = t)"
  by (auto simp: world_defs page_defs Let_def)

theorem arrival_order_wins_witness:
  "awaiting (run (butlast overlapping_polls)) 0 = Some NoFollowup
   \<and> sent (run (butlast overlapping_polls)) ! 0 = GetAnalysis
   \<and> bullishData (page (step (run (butlast overlapping_polls))
         (AnalysisSettles 0 (Replied 200 (demo_analysis ''first''))))) = Some (demo_setup ''first bullish'')
   \<and> awaiting (run (butlast overlapping_polls)) 1 = Some NoFollowup
   \<and> sent (run (butlast overlapping_polls)) ! 1 = GetTradeStatus
   \<and> tradeStatus (page (step (run (butlast overlapping_polls))
         (StatusSettles 1 (Replied 200 (Some (demo_status 50)))))) = Some (demo_status 50)"
proof -
  have a: "awaiting (run (butlast overlapping_polls)) 0 = Some NoFollowup"
    by (simp add: overlapping_polls_def demo_defs world_defs page_defs)
  have b: "sent (run (butlast overlapping_polls)) ! 0 = GetAnalysis"
    by (simp add: overlapping_polls_def demo_defs world_defs page_defs)
  have c: "awaiting (run (butlast overlapping_polls)) 1 = Some NoFollowup"
    by (simp add: overlapping_polls_def demo_defs world_defs page_defs)
  have d: "sent (run (butlast overlapping_polls)) ! 1 = GetTradeStatus"
    by (simp add: overlapping_polls_def demo_defs world_defs page_defs)
  have h: "http_ok 200"
    by (simp add: http_ok_def)
  show ?thesis
    using a b c d h
      arrival_order_wins [where w = "run (butlast overlapping_polls)" and n = 0 and k = NoFollowup
        and st = 200 and d = "demo_analysis ''first''" and t = "Some (demo_status 50)"]
      arrival_order_wins [where w = "run (butlast overlapping_polls)" and n = 1 and k = NoFollowup
        and st = 200 and d = "demo_analysis ''first''" and t = "Some (demo_status 50)"]
    by (simp add: demo_analysis_def)
qed

text \<open>
  C1 as the specification words it fails. Request 0 (sent on mount) and request 2 (sent
  by the first tick) are both setup polls. The answer to request 2 arrives first and is
  stored; the answer to request 0 arrives afterwards and replaces it.
\<close>

theorem stale_poll_overwrites:
  "sent (run overlapping_polls) = [GetAnalysis, GetTradeStatus, GetAnalysis, GetTradeStatus]
   \<and> bullishData (page (run (butlast overlapping_polls))) = Some (demo_setup ''second bullish'')
   \<and> bullishData (page (run overlapping_polls)) = Some (demo_setup ''first bullish'')
   \<and> setupData (page (run overlapping_polls)) = Some (demo_setup ''first bullish'')
   \<and> demo_setup ''first bullish'' \<noteq> demo_setup ''second bullish''"
  by (simp add: overlapping_polls_def demo_defs world_defs page_defs)




section \<open>Selection and views\<close>

lemma settle_keeps_selection:
  "selectedTrader (page (step w (AnalysisSettles n out))) = selectedTrader (page w)"
  "selectedTrader (page (step w (StatusSettles n out'))) = selectedTrader (page w)"
  by (auto simp: world_defs page_defs Let_def split: option.splits request.splits outcome.splits thrown.splits)

text \<open>
  C9, as the code has it. The selected trader starts as bullish. No settled poll changes
  it, whatever the poll delivered. When the stored trade status says the page is in a
  trade, no render shows the two trader cards or the setup plan, and every dashboard
  that is rendered shows the trade monitoring section. The loading screen and the
  failure screen come before the dashboard and show none of the three.
\<close>

theorem selection_and_trade_view:
  "selectedTrader (page initial_world) = Bullish
   \<and> selectedTrader (page (step w (AnalysisSettles n out))) = selectedTrader (page w)
   \<and> selectedTrader (page (step w (StatusSettles n out'))) = selectedTrader (page w)
   \<and> (tradeStatus s = Some t \<and> in_trade t \<longrightarrow>
        \<not> displays DualTraderCards (render s) \<and> \<not> displays CurrentSetupPlan (render s)
        \<and> (\<forall>secs. render s = Inr (Dashboard secs) \<longrightarrow> TradeMonitoring \<in> set secs))"
proof -
  have v: "tradeStatus s = Some t \<and> in_trade t \<longrightarrow>
        \<not> displays DualTraderCards (render s) \<and> \<not> displays CurrentSetupPlan (render s)
        \<and> (\<forall>secs. render s = Inr (Dashboard secs) \<longrightarrow> TradeMonitoring \<in> set secs)"
    by (auto simp: page_defs split: option.splits sum.splits if_splits)
  show ?thesis
    using v settle_keeps_selection
    by (simp add: initial_world_def initial_page_def)
qed


lemma holding_half_page:
  "tradeStatus (page (run holding_half)) = Some (demo_status 50)"
  "render (page (run holding_half)) = Inr (Dashboard [TradeMonitoring])"
  "mounted (run holding_half)"
  "setupData (page (run holding_half)) = Some (demo_setup ''first bullish'')"
  by (simp_all add: holding_half_def demo_defs world_defs page_defs)

theorem selection_and_trade_view_witness:
  "tradeStatus (page (run holding_half)) = Some (demo_status 50) \<and> in_trade (demo_status 50)
   \<and> render (page (run holding_half)) = Inr (Dashboard [TradeMonitoring])
   \<and> \<not> displays DualTraderCards (render (page (run holding_half)))
   \<and> \<not> displays CurrentSetupPlan (render (page (run holding_half)))
   \<and> TradeMonitoring \<in> set [TradeMonitoring]"
  using holding_half_page
    selection_and_trade_view [where s = "page (run holding_half)" and t = "demo_status 50"]
  by (simp add: demo_status_def)

text \<open>
  C9 as the specification words it fails: the page is in a trade and a setup poll is
  answered with status 500; the render is the failure screen, and the trade monitoring
  section, which was shown before, is not on it.
\<close>

theorem monitoring_hidden_by_failed_poll:
  "displays TradeMonitoring (render (page (run holding_half)))
   \<and> tradeStatus (page (run failed_poll_in_trade)) = Some (demo_status 50)
   \<and> in_trade (demo_status 50)
   \<and> render (page (run failed_poll_in_trade)) = Inr (FailedScreen ''HTTP 500'')
   \<and> \<not> displays TradeMonitoring (render (page (run failed_poll_in_trade)))"
  by (simp add: failed_poll_in_trade_def holding_half_def demo_defs world_defs page_defs
      show_nat_small show_nat_big digit_char_def)

section \<open>Trade actions\<close>

text \<open>
  C3, as the code has it. On a dashboard with a trade status that is in a trade, the add
  button is on the screen exactly at a position size of 50, the button for the partial
  exit exactly at 100, and the close button always. The add button only opens the entry
  dialog and sends nothing. At another size a click on the add button or on the partial
  exit button cannot happen and changes nothing. The close button, when the shown setup
  has a current price and the operator accepts the confirmation, sends one exit request
  for the whole position size; when the operator declines, nothing is sent. The entry
  dialog itself is not bound to the position size.
\<close>

theorem monitoring_actions:
  "tradeStatus (page w) = Some t \<and> in_trade t \<and> mounted w
     \<and> render (page w) = Inr (Dashboard secs) \<longrightarrow>
   (AddMoreButton \<in> set (buttons (page w)) \<longleftrightarrow> position_size t = 50)
   \<and> (ExitHalfButton \<in> set (buttons (page w)) \<longleftrightarrow> position_size t = 100)
   \<and> CloseTradeButton \<in> set (buttons (page w))
   \<and> sent (step w (Click AddMoreButton a)) = sent w
   \<and> (position_size t \<noteq> 50 \<longrightarrow> step w (Click AddMoreButton a) = w)
   \<and> (position_size t \<noteq> 100 \<longrightarrow> step w (Click ExitHalfButton a) = w)
   \<and> sent (step w (Click CloseTradeButton False)) = sent w
   \<and> (\<forall>su p. setupData (page w) = Some su \<and> current_price su = Some p \<longrightarrow>
         sent (step w (Click CloseTradeButton True)) =
           sent w @ [PostExitTrade \<lparr>exit_price = p, exit_position_size = position_size t,
                                    reason = ''Manual exit''\<rparr>])"
proof (rule impI)
  assume h: "tradeStatus (page w) = Some t \<and> in_trade t \<and> mounted w
     \<and> render (page w) = Inr (Dashboard secs)"
  then have t: "tradeStatus (page w) = Some t" and i: "in_trade t" and m: "mounted w"
    and r: "render (page w) = Inr (Dashboard secs)"
    by simp_all
  from r have secs: "secs = sections (page w)"
    by (auto simp: render_def screen_of_def split: if_splits option.splits sum.splits)
  from t i have mon: "TradeMonitoring \<in> set secs" and plan: "CurrentSetupPlan \<notin> set secs"
    and cards: "DualTraderCards \<notin> set secs"
    by (simp_all add: secs sections_def inTrade_def)
  have b: "buttons (page w) =
      monitoring_buttons t @ (if EnterTradeModal \<in> set secs then [CancelButton, ConfirmEntryButton] else [])"
    using r t mon plan cards by (simp add: buttons_def shown_monitoring_buttons_def)
  have add: "AddMoreButton \<in> set (buttons (page w)) \<longleftrightarrow> position_size t = 50"
    by (simp add: b monitoring_buttons_def)
  have half: "ExitHalfButton \<in> set (buttons (page w)) \<longleftrightarrow> position_size t = 100"
    by (simp add: b monitoring_buttons_def)
  have close: "CloseTradeButton \<in> set (buttons (page w))"
    by (simp add: b monitoring_buttons_def)
  have s1: "sent (step w (Click AddMoreButton a)) = sent w"
    using t by (auto simp: click_def Let_def split: option.splits)
  have s2: "sent (step w (Click CloseTradeButton False)) = sent w"
    using t by (auto simp: click_def exitTrade_def Let_def split: option.splits)
  have s3: "\<forall>su p. setupData (page w) = Some su \<and> current_price su = Some p \<longrightarrow>
         sent (step w (Click CloseTradeButton True)) =
           sent w @ [PostExitTrade \<lparr>exit_price = p, exit_position_size = position_size t,
                                    reason = ''Manual exit''\<rparr>]"
    using t m close by (auto simp: click_def exitTrade_def dispatch_def Let_def)
  show "(AddMoreButton \<in> set (buttons (page w)) \<longleftrightarrow> position_size t = 50)
   \<and> (ExitHalfButton \<in> set (buttons (page w)) \<longleftrightarrow> position_size t = 100)
   \<and> CloseTradeButton \<in> set (buttons (page w))
   \<and> sent (step w (Click AddMoreButton a)) = sent w
   \<and> (position_size t \<noteq> 50 \<longrightarrow> step w (Click AddMoreButton a) = w)
   \<and> (position_size t \<noteq> 100 \<longrightarrow> step w (Click ExitHalfButton a) = w)
   \<and> sent (step w (Click CloseTradeButton False)) = sent w
   \<and> (\<forall>su p. setupData (page w) = Some su \<and> current_price su = Some p \<longrightarrow>
         sent (step w (Click CloseTradeButton True)) =
           sent w @ [PostExitTrade \<lparr>exit_price = p, exit_position_size = position_size t,
                                    reason = ''Manual exit''\<rparr>])"
    using add half close s1 s2 s3 by simp
qed

theorem monitoring_actions_witness:
  "tradeStatus (page (run holding_half)) = Some (demo_status 50) \<and> in_trade (demo_status 50)
   \<and> mounted (run holding_half)
   \<and> render (page (run holding_half)) = Inr (Dashboard [TradeMonitoring])
   \<and> AddMoreButton \<in> set (buttons (page (run holding_half)))
   \<and> ExitHalfButton \<notin> set (buttons (page (run holding_half)))
   \<and> step (run holding_half) (Click ExitHalfButton True) = run holding_half
   \<and> sent (step (run holding_half) (Click CloseTradeButton True)) =
       sent (run holding_half) @
         [PostExitTrade \<lparr>exit_price = Fin 4000, exit_position_size = 50, reason = ''Manual exit''\<rparr>]"
  using holding_half_page
    monitoring_actions [where w = "run holding_half" and t = "demo_status 50"
      and secs = "[TradeMonitoring]" and a = True]
  by (auto simp: demo_status_def demo_setup_def)

text \<open>
  C3 as the specification words it fails. The operator opens the entry dialog with the
  add button at size 50; a poll then reports size 100; the dialog is still open and its
  confirm button sends the enter request at size 100.
\<close>

theorem entry_confirmed_at_full_size:
  "tradeStatus (page (run add_more_then_full)) = Some (demo_status 100)
   \<and> ConfirmEntryButton \<in> set (buttons (page (run add_more_then_full)))
   \<and> sent (step (run add_more_then_full) (Click ConfirmEntryButton False)) =
       sent (run add_more_then_full) @
         [PostEnterTrade (confirm_entry (addMore_form (demo_setup ''first bullish'') (demo_status 50)))]"
  by (simp add: add_more_then_full_def holding_half_def demo_defs world_defs page_defs
      addMore_form_def confirm_entry_def)

text \<open>
  C5 at a refused exit. The operator closes the full position and the backend answers
  with \<open>success\<close> false and an error text: no dialog is shown, the page and the list of
  requests stay as they were. The refused entry of the next session, in contrast, shows
  the error text of the backend in an alert.
\<close>

theorem refused_exit_is_silent:
  "sent (run refused_exit) ! 2 =
     PostExitTrade \<lparr>exit_price = Fin 4000, exit_position_size = 100, reason = ''Manual exit''\<rparr>
   \<and> dialogs (run refused_exit) = [ConfirmBox ''Exit 100% of position at $4000.00?'']
   \<and> dialogs (run (refused_exit @ [ExitSettles 2 (Replied 200 rejection)])) = dialogs (run refused_exit)
   \<and> page (run (refused_exit @ [ExitSettles 2 (Replied 200 rejection)])) = page (run refused_exit)
   \<and> sent (run (refused_exit @ [ExitSettles 2 (Replied 200 rejection)])) = sent (run refused_exit)
   \<and> dialogs (run (bearish_entry @ [EnterSettles 2 (Replied 200 rejection)])) =
       [AlertBox ''Failed to enter trade: No open position'']
   \<and> page (run (bearish_entry @ [EnterSettles 2 (Replied 200 rejection)])) = page (run bearish_entry)
   \<and> sent (run (bearish_entry @ [EnterSettles 2 (Replied 200 rejection)])) = sent (run bearish_entry)"
proof -
  have f: "toFixed2 (Fin 4000) = ''4000.00''"
    by (simp add: js_eval)
  have n: "show_int 100 = ''100''"
    by (simp add: show_int_def show_nat_small show_nat_big digit_char_def)
  have p: "parseFloat (remove1 (CHR ''$'') ''$3995.00'') = Fin 3995"
    by (simp add: js_eval)
  show ?thesis
    using f n p
    by (simp add: refused_exit_def bearish_entry_def rejection_def demo_defs world_defs page_defs
        tookTrade_form_def plan_target_def js_plus_def js_add_def confirm_entry_def js_str_def)
qed

section \<open>Direction of entries\<close>

lemma step_sent:
  "sent (step w e) = sent w
   \<or> (\<exists>r. sent (step w e) = sent w @ [r] \<and> (\<forall>q. r \<noteq> PostEnterTrade q))
   \<or> (\<exists>r1 r2. sent (step w e) = sent w @ [r1, r2] \<and> (\<forall>q. r1 \<noteq> PostEnterTrade q) \<and> (\<forall>q. r2 \<noteq> PostEnterTrade q))
   \<or> (\<exists>f. sent (step w e) = sent w @ [PostEnterTrade (confirm_entry f)])"
proof (cases e)
  case (Click b a)
  then show ?thesis
    by (cases b)
      (auto simp: world_defs openEnterTradeModal_def Let_def split: option.splits sum.splits)
qed (auto simp: world_defs Let_def split: option.splits request.splits outcome.splits)

text \<open>
  C10. In every session of the page, every enter request that has been sent carries the
  trade direction \<open>LONG\<close>; the selected trader plays no part in it.
\<close>

theorem entries_are_long:
  "PostEnterTrade r \<in> set (sent (run es)) \<longrightarrow> trade_direction r = ''LONG''"
proof (induction es rule: rev_induct)
  case Nil
  then show ?case by (simp add: run_def initial_world_def)
next
  case (snoc e es)
  have "run (es @ [e]) = step (run es) e"
    by (simp add: run_def)
  then show ?case
    using snoc step_sent [of "run es" e] by (auto simp: confirm_entry_def)
qed

theorem entries_are_long_witness:
  "selectedTrader (page (run bearish_entry)) = Bearish
   \<and> PostEnterTrade (confirm_entry \<lparr>ef_entry_price = Some (Fin 4000), ef_position_size = Some (Fin 50),
         ef_stop_loss = Some (Fin 3995), ef_take_profit_1 = Some (Fin 4010),
         ef_take_profit_2 = Some (Fin 4020)\<rparr>) \<in> set (sent (run bearish_entry))
   \<and> trade_direction (confirm_entry \<lparr>ef_entry_price = Some (Fin 4000), ef_position_size = Some (Fin 50),
         ef_stop_loss = Some (Fin 3995), ef_take_profit_1 = Some (Fin 4010),
         ef_take_profit_2 = Some (Fin 4020)\<rparr>) = ''LONG''"
proof -
  have p: "parseFloat (remove1 (CHR ''$'') ''$3995.00'') = Fin 3995"
    by (simp add: js_eval)
  have s: "selectedTrader (page (run bearish_entry)) = Bearish"
    using p
    by (simp add: bearish_entry_def demo_defs world_defs page_defs tookTrade_form_def)
  have m: "PostEnterTrade (confirm_entry \<lparr>ef_entry_price = Some (Fin 4000), ef_position_size = Some (Fin 50),
         ef_stop_loss = Some (Fin 3995), ef_take_profit_1 = Some (Fin 4010),
         ef_take_profit_2 = Some (Fin 4020)\<rparr>) \<in> set (sent (run bearish_entry))"
    using p
    by (simp add: bearish_entry_def demo_defs world_defs page_defs tookTrade_form_def
        plan_target_def js_plus_def js_add_def)
  show ?thesis
    using s m entries_are_long [where es = bearish_entry] by blast
qed

end
